theory Spec2Isabelle
  imports Main "HOL-Library.Char_ord" "HOL-Library.List_Lexorder"
begin

section \<open>Python values, strings and numbers\<close>

text \<open>
  The explorer handles the cell values the storage engine returns: NULL, integers, floats,
  text and blobs. Python integers are unbounded (\<open>int\<close>). A finite float \<open>Finite m e\<close>
  stands for the double whose exact value is \<open>m * 2 ^ e\<close>; the other constructors are the
  special doubles. Strings are character lists.
\<close>

datatype pyfloat = Finite int int | NegZero | PosInf | NegInf | NaN

datatype val = Null | Integer int | Float pyfloat | Text string | Blob "nat list"

definition digit_char :: "int \<Rightarrow> char" where
  "digit_char d = char_of (48 + d)"

text \<open>The decimal digits of a non-negative integer.\<close>

function digits :: "int \<Rightarrow> string" where
  "digits n = (if n < 10 then [digit_char n] else digits (n div 10) @ [digit_char (n mod 10)])"
  by pat_completeness auto
termination
  by (relation "measure nat") auto

declare digits.simps [simp del]

text \<open>\<open>str(i)\<close> of a Python integer.\<close>

definition string_of_int :: "int \<Rightarrow> string" where
  "string_of_int i = (if i < 0 then CHR ''-'' # digits (- i) else digits i)"

text \<open>\<open>sep.join(xs)\<close>.\<close>

fun join :: "string \<Rightarrow> string list \<Rightarrow> string" where
  "join sep [] = []"
| "join sep [x] = x"
| "join sep (x # y # ys) = x @ sep @ join sep (y # ys)"

text \<open>
  The slice \<open>s[:k]\<close>: a negative bound counts from the end of the string, and a bound
  past either end is clamped.
\<close>

definition slice_to :: "'a list \<Rightarrow> int \<Rightarrow> 'a list" where
  "slice_to s k = (if 0 \<le> k then take (nat k) s else take (nat (int (length s) + k)) s)"

text \<open>\<open>s.ljust(w)\<close> and \<open>s.rjust(w)\<close>: no padding when \<open>w\<close> is not larger than the length.\<close>

definition ljust :: "string \<Rightarrow> int \<Rightarrow> string" where
  "ljust s w = s @ replicate (nat w - length s) CHR '' ''"

definition rjust :: "string \<Rightarrow> int \<Rightarrow> string" where
  "rjust s w = replicate (nat w - length s) CHR '' '' @ s"

text \<open>\<open>s.replace(c, r)\<close> for a one-character pattern \<open>c\<close>.\<close>

definition replace_char :: "char \<Rightarrow> string \<Rightarrow> string \<Rightarrow> string" where
  "replace_char c r s = concat (map (\<lambda>x. if x = c then r else [x]) s)"

text \<open>Lower case of an ASCII letter; every other character is kept.\<close>

definition ascii_lower :: "char \<Rightarrow> char" where
  "ascii_lower c = (if CHR ''A'' \<le> c \<and> c \<le> CHR ''Z'' then char_of (of_char c + (32::nat)) else c)"

definition ascii_upper :: "char \<Rightarrow> char" where
  "ascii_upper c = (if CHR ''a'' \<le> c \<and> c \<le> CHR ''z'' then char_of (of_char c - (32::nat)) else c)"

text \<open>\<open>sub in s\<close> and \<open>s.startswith(p)\<close> on strings.\<close>

fun contains :: "string \<Rightarrow> string \<Rightarrow> bool" where
  "contains sub [] = (sub = [])"
| "contains sub (c # cs) = (take (length sub) (c # cs) = sub \<or> contains sub cs)"


subsection \<open>Formatting a float with \<open>%.6g\<close>\<close>

text \<open>
  \<open>"%.Pg" % x\<close> rounds the exact value of \<open>x\<close> to \<open>P\<close> significant decimal digits (ties
  to even), writes it in fixed notation when the decimal exponent \<open>X\<close> of the rounded value
  satisfies \<open>-4 \<le> X < P\<close> and in scientific notation otherwise, and removes trailing
  zeros of the fraction. The absolute value is handled as a fraction \<open>n / d\<close> of positive integers.
\<close>

definition frac_of :: "int \<Rightarrow> int \<Rightarrow> int \<times> int" where
  "frac_of m e = (if 0 \<le> e then (\<bar>m\<bar> * 2 ^ nat e, 1) else (\<bar>m\<bar>, 2 ^ nat (- e)))"

definition le_pow10 :: "int \<Rightarrow> int \<Rightarrow> int \<Rightarrow> bool" where
  "le_pow10 k n d = (if 0 \<le> k then 10 ^ nat k * d \<le> n else d \<le> n * 10 ^ nat (- k))"

definition floor_log10 :: "int \<Rightarrow> int \<Rightarrow> int" where
  "floor_log10 n d =
     (let hi = int (length (digits n)); lo = - int (length (digits d))
      in case find (\<lambda>k. le_pow10 k n d) (rev [lo..hi]) of Some k \<Rightarrow> k | None \<Rightarrow> lo)"

definition div_half_even :: "int \<Rightarrow> int \<Rightarrow> int" where
  "div_half_even a b =
     (let q = a div b; r = a mod b
      in if 2 * r < b then q else if b < 2 * r then q + 1 else if even q then q else q + 1)"

definition scale_round :: "int \<Rightarrow> int \<Rightarrow> int \<Rightarrow> int" where
  "scale_round n d s =
     (if 0 \<le> s then div_half_even (n * 10 ^ nat s) d else div_half_even n (d * 10 ^ nat (- s)))"

definition strip_zeros :: "string \<Rightarrow> string" where
  "strip_zeros s = rev (dropWhile (\<lambda>c. c = CHR ''0'') (rev s))"

text \<open>
  The \<open>P\<close> significant digits of \<open>n / d\<close> as an integer, and the decimal exponent of the
  rounded value: rounding up to \<open>10 ^ P\<close> carries into the exponent.
\<close>

definition sig_digits :: "nat \<Rightarrow> int \<Rightarrow> int \<Rightarrow> int \<times> int" where
  "sig_digits P n d =
     (let k = floor_log10 n d;
          m0 = scale_round n d (int P - 1 - k)
      in if m0 = 10 ^ P then (10 ^ (P - 1), k + 1) else (m0, k))"

definition fmt_g_pos :: "nat \<Rightarrow> int \<Rightarrow> int \<Rightarrow> string" where
  "fmt_g_pos P n d =
     (case sig_digits P n d of
        (m, X) \<Rightarrow>
          (let ds = digits m
           in if - 4 \<le> X \<and> X < int P then
                (if 0 \<le> X then
                   (let ip = take (nat X + 1) ds; fp = strip_zeros (drop (nat X + 1) ds)
                    in if fp = [] then ip else ip @ ''.'' @ fp)
                 else ''0.'' @ replicate (nat (- X - 1)) CHR ''0'' @ strip_zeros ds)
              else
                (let fp = strip_zeros (drop 1 ds);
                     mant = (if fp = [] then take 1 ds else take 1 ds @ ''.'' @ fp);
                     ex = digits \<bar>X\<bar>
                 in mant @ ''e'' @ (if X < 0 then ''-'' else ''+'')
                      @ (if length ex < 2 then ''0'' @ ex else ex))))"

definition fmt_g6 :: "pyfloat \<Rightarrow> string" where
  "fmt_g6 f =
     (case f of
        Finite m e \<Rightarrow>
          (if m = 0 then ''0''
           else (if m < 0 then ''-'' else '''')
                  @ (case frac_of m e of (n, d) \<Rightarrow> fmt_g_pos 6 n d))
      | NegZero \<Rightarrow> ''-0''
      | PosInf \<Rightarrow> ''inf''
      | NegInf \<Rightarrow> ''-inf''
      | NaN \<Rightarrow> ''nan'')"

subsection \<open>Language primitives taken as parameters\<close>

text \<open>
  Some primitives of the language and its library are not reimplemented: \<open>repr\<close> of a
  float and of a bytes object (what \<open>str\<close> returns for them), \<open>str.lower\<close> and
  \<open>str.upper\<close>, whether \<open>float(s)\<close> accepts a string, \<open>json.dumps\<close> of a list of
  records, and the line that \<open>csv.writer\<close> writes for a row. Every function that uses one takes the record \<open>B\<close>; every theorem holds for all
  of them.
\<close>

record builtin =
  float_repr :: "pyfloat \<Rightarrow> string"
  bytes_repr :: "nat list \<Rightarrow> string"
  lower :: "string \<Rightarrow> string"
  upper :: "string \<Rightarrow> string"
  parses_float :: "string \<Rightarrow> bool"
  json_dumps :: "(string \<times> val) list list \<Rightarrow> string"
  csv_writerow :: "string list \<Rightarrow> string"

text \<open>\<open>str(v)\<close> of a cell value.\<close>

definition py_str :: "builtin \<Rightarrow> val \<Rightarrow> string" where
  "py_str B v =
     (case v of
        Null \<Rightarrow> ''None''
      | Integer i \<Rightarrow> string_of_int i
      | Float f \<Rightarrow> float_repr B f
      | Text s \<Rightarrow> s
      | Blob b \<Rightarrow> bytes_repr B b)"

section \<open>TableFormatter.format\_table\<close>

text \<open>The stringification of one cell (lines 74-85 of the source).\<close>

definition cell_text :: "val \<Rightarrow> string" where
  "cell_text v =
     (case v of
        Null \<Rightarrow> ''NULL''
      | Blob b \<Rightarrow> ''<BLOB '' @ digits (int (length b)) @ '' bytes>''
      | Float f \<Rightarrow> fmt_g6 f
      | Integer i \<Rightarrow>
          replace_char (CHR 0x0D) [CHR 0x5C, CHR ''r'']
            (replace_char (CHR 0x0A) [CHR 0x5C, CHR ''n''] (string_of_int i))
      | Text s \<Rightarrow>
          replace_char (CHR 0x0D) [CHR 0x5C, CHR ''r'']
            (replace_char (CHR 0x0A) [CHR 0x5C, CHR ''n''] s))"

text \<open>
  The width loop: \<open>for i, val in enumerate(row): if i < len(col_widths): ...\<close>, run for
  every row, starting from the header lengths.
\<close>

fun widen :: "int list \<Rightarrow> nat \<Rightarrow> string list \<Rightarrow> int list" where
  "widen ws i [] = ws"
| "widen ws i (v # vs) =
     widen (if i < length ws then ws[i := max (ws ! i) (int (length v))] else ws) (Suc i) vs"

fun widen_rows :: "int list \<Rightarrow> string list list \<Rightarrow> int list" where
  "widen_rows ws [] = ws"
| "widen_rows ws (row # rows) = widen_rows (widen ws 0 row) rows"

definition col_widths :: "string list \<Rightarrow> string list list \<Rightarrow> int \<Rightarrow> int list" where
  "col_widths str_headers str_rows max_width =
     map (\<lambda>w. min w max_width) (widen_rows (map (\<lambda>h. int (length h)) str_headers) str_rows)"

text \<open>The lengths of the cells that column \<open>j\<close> has in the stringified rows.\<close>

definition col_cells :: "string list list \<Rightarrow> nat \<Rightarrow> int set" where
  "col_cells rows j = set (map (\<lambda>r. int (length (r ! j))) (filter (\<lambda>r. j < length r) rows))"

text \<open>The nested function \<open>truncate\<close> of format\_table.\<close>

definition truncate_str :: "string \<Rightarrow> int \<Rightarrow> string" where
  "truncate_str s width = (if int (length s) \<le> width then s else slice_to s (width - 3) @ ''...'')"

text \<open>
  One cell of a data row: a missing cell is the empty string, and whether the untruncated
  text parses as a float decides the alignment.
\<close>

definition padded_cell :: "builtin \<Rightarrow> string list \<Rightarrow> nat \<Rightarrow> int \<Rightarrow> string" where
  "padded_cell B row i w =
     (let val = truncate_str (if i < length row then row ! i else []) w
      in if parses_float B (if i < length row then row ! i else ''x'') then rjust val w
         else ljust val w)"

definition padded_row :: "builtin \<Rightarrow> int list \<Rightarrow> string list \<Rightarrow> string list" where
  "padded_row B ws row = map (\<lambda>(i, w). padded_cell B row i w) (enumerate 0 ws)"

definition format_table ::
  "builtin \<Rightarrow> string list \<Rightarrow> val list list \<Rightarrow> int \<Rightarrow> string option \<Rightarrow> string" where
  "format_table B headers rows max_width title =
     (if headers = [] then ''(no columns)''
      else
        (let str_rows = map (map cell_text) rows;
             ws = col_widths headers str_rows max_width;
             sep = ''+-'' @ join ''-+-'' (map (\<lambda>w. replicate (nat w) CHR ''-'') ws) @ ''-+'';
             title_lines = (case title of None \<Rightarrow> [] | Some t \<Rightarrow> if t = [] then [] else [[], t]);
             header_line =
               ''| '' @ join '' | '' (map (\<lambda>(h, w). ljust (truncate_str h w) w) (zip headers ws)) @ '' |'';
             row_lines =
               map (\<lambda>row. ''| '' @ join '' | '' (padded_row B ws row) @ '' |'') str_rows;
             footer =
               (if str_rows \<noteq> [] then
                  ''('' @ digits (int (length str_rows)) @ '' row''
                    @ (if length str_rows \<noteq> 1 then ''s'' else '''') @ '')''
                else ''(0 rows)'')
         in join [CHR 0x0A] (title_lines @ [sep, header_line, sep] @ row_lines @ [sep, footer])))"

section \<open>TableFormatter.format\_markdown\<close>

text \<open>
  A Python list is a mutable object, and whether the caller's row lists change is a question
  about which object is appended to. List objects therefore live in a store, addressed by
  their index; \<open>rows\<close> is the sequence of the addresses of the caller's rows. A new list
  is allocated at the end of the store.
\<close>

datatype obj = ValList "val list" | StrList "string list"

type_synonym store = "obj list"

definition val_items :: "store \<Rightarrow> nat \<Rightarrow> val list" where
  "val_items st a =
     (if a < length st then (case st ! a of ValList vs \<Rightarrow> vs | StrList ss \<Rightarrow> map Text ss) else [])"

definition str_items :: "store \<Rightarrow> nat \<Rightarrow> string list" where
  "str_items st a =
     (if a < length st then (case st ! a of StrList ss \<Rightarrow> ss | ValList vs \<Rightarrow> []) else [])"

definition md_cell :: "builtin \<Rightarrow> val \<Rightarrow> string" where
  "md_cell B v =
     (case v of
        Null \<Rightarrow> ''NULL''
      | Blob b \<Rightarrow> ''`<BLOB '' @ digits (int (length b)) @ '' bytes>`''
      | _ \<Rightarrow> replace_char CHR ''|'' [CHR 0x5C, CHR ''|''] (py_str B v))"

text \<open>
  The first loop builds \<open>str_rows\<close>: for every row a fresh list \<open>str_row\<close> of strings.
  It returns the new store and the addresses of the fresh lists.
\<close>

fun stringify_md :: "builtin \<Rightarrow> store \<Rightarrow> nat list \<Rightarrow> store \<times> nat list" where
  "stringify_md B st [] = (st, [])"
| "stringify_md B st (a # as) =
     (let st1 = st @ [StrList (map (md_cell B) (val_items st a))];
          r = stringify_md B st1 as
      in (fst r, length st # snd r))"

text \<open>\<open>while len(row) < len(str_headers): row.append("")\<close> on the list at address \<open>b\<close>.\<close>

function pad_row :: "store \<Rightarrow> nat \<Rightarrow> nat \<Rightarrow> store" where
  "pad_row st b n =
     (if b < length st \<and> length (str_items st b) < n
      then pad_row (st[b := StrList (str_items st b @ [[]])]) b n
      else st)"
  by pat_completeness auto
termination
  by (relation "measure (\<lambda>(st, b, n). n - length (str_items st b))")
     (auto simp: str_items_def)

declare pad_row.simps [simp del]

fun md_lines :: "store \<Rightarrow> nat list \<Rightarrow> nat \<Rightarrow> store \<times> string list" where
  "md_lines st [] n = (st, [])"
| "md_lines st (b # bs) n =
     (let st1 = pad_row st b n;
          line = ''| '' @ join '' | '' (str_items st1 b) @ '' |'';
          r = md_lines st1 bs n
      in (fst r, line # snd r))"

definition format_markdown :: "builtin \<Rightarrow> store \<Rightarrow> string list \<Rightarrow> nat list \<Rightarrow> store \<times> string" where
  "format_markdown B st headers rows =
     (if headers = [] then (st, ''(no columns)'')
      else
        (let s1 = stringify_md B st rows;
             head = [''| '' @ join '' | '' headers @ '' |'',
                     ''| '' @ join '' | '' (map (\<lambda>_. ''---'') headers) @ '' |''];
             s2 = md_lines (fst s1) (snd s1) (length headers)
         in (fst s2, join [CHR 0x0A] (head @ snd s2))))"

text \<open>Example inputs: a fixed choice of the language primitives, and a 100-character value.\<close>

definition B0 :: builtin where
  "B0 = \<lparr>float_repr = (\<lambda>_. ''0.0''), bytes_repr = (\<lambda>_. ''b''),
          lower = map ascii_lower, upper = map ascii_upper, parses_float = (\<lambda>_. False),
          json_dumps = (\<lambda>_. ''[]''), csv_writerow = (\<lambda>r. join '','' r @ [CHR 0x0D, CHR 0x0A])\<rparr>"

definition long_value :: string where
  "long_value = replicate 100 CHR ''A''"

section \<open>The database as the explorer sees it\<close>

text \<open>
  The storage engine is an external collaborator. It is modelled by the data it answers
  from: the catalog entries of type \<open>table\<close>, each with the answer of the introspection
  pragmas (columns, indexes, foreign keys, creation text) and its rows in scan order,
  and the page accounting of the file. Queries on the data of a table can fail with
  \<open>sqlite3.OperationalError\<close>; \<open>faults\<close> says which do. Catalog queries and pragmas
  are answered from the catalog, names are matched exactly, and a pragma on a missing
  table answers with no rows, as the engine does.
\<close>

record column =
  cid :: int
  col_name :: string
  decl_type :: string
  notnull :: int
  dflt_value :: val
  pk :: int

record index_entry =
  idx_name :: string
  idx_unique :: int
  idx_columns :: "string list"

record fk_entry =
  fk_id :: int
  fk_table :: string
  fk_from :: string
  fk_to :: string

record table =
  tbl_name :: string
  tbl_columns :: "column list"
  tbl_indexes :: "index_entry list"
  tbl_fks :: "fk_entry list"
  tbl_sql :: val
  tbl_rows :: "val list list"

text \<open>The data queries the explorer sends, by kind and table (and column).\<close>

datatype query =
    QCount string
  | QBasicStats string string
  | QNumStats string string
  | QLike string
  | QSumLen string
  | QSample string
  | QSelectAll string

text \<open>
  What the engine computes and the model does not: whether a value matches the pattern
  \<open>%term%\<close> under \<open>LIKE\<close>, the number of distinct values and the aggregates of a
  non-empty list of non-NULL values of a column, and the answers to caller-supplied SQL
  text (\<open>None\<close> when the engine raises).
\<close>

datatype aggregate = AggMin | AggMax | AggAvg | AggSum

record database =
  db_path :: string
  file_size :: int
  page_size :: int
  page_count :: int
  freelist_count :: int
  tables :: "table list"
  faults :: "query \<Rightarrow> bool"
  like_match :: "string \<Rightarrow> val \<Rightarrow> bool"
  count_distinct :: "val list \<Rightarrow> int"
  aggregate_of :: "aggregate \<Rightarrow> val list \<Rightarrow> val"
  select_where :: "string \<Rightarrow> string option \<Rightarrow> string option \<Rightarrow> val list list option"
  run_sql :: "string \<Rightarrow> (string list \<times> val list list) option"

datatype error = ValueError string | OperationalError | TypeError | IndexError | KeyError

definition find_table :: "database \<Rightarrow> string \<Rightarrow> table option" where
  "find_table db name = find (\<lambda>t. tbl_name t = name) (tables db)"

text \<open>\<open>PRAGMA table_info("name")\<close>.\<close>

definition table_info :: "database \<Rightarrow> string \<Rightarrow> column list" where
  "table_info db name = (case find_table db name of None \<Rightarrow> [] | Some t \<Rightarrow> tbl_columns t)"

text \<open>
  The rows of a table as the engine returns them: one value per column of the table.
\<close>

definition engine_row :: "table \<Rightarrow> val list \<Rightarrow> val list" where
  "engine_row t r = map (\<lambda>i. if i < length r then r ! i else Null) [0..<length (tbl_columns t)]"

definition select_all :: "table \<Rightarrow> val list list" where
  "select_all t = map (engine_row t) (tbl_rows t)"

text \<open>\<open>SELECT COUNT(*) FROM "name"\<close>; \<open>None\<close> is \<open>OperationalError\<close>.\<close>

definition count_rows :: "database \<Rightarrow> string \<Rightarrow> int option" where
  "count_rows db name =
     (case find_table db name of
        None \<Rightarrow> None
      | Some t \<Rightarrow> if faults db (QCount name) then None else Some (int (length (tbl_rows t))))"

text \<open>
  \<open>name NOT LIKE 'sqlite_%'\<close>: the pattern matches, without regard to the case of ASCII
  letters, every name that starts with \<open>sqlite\<close> and has at least one more character.
\<close>

definition is_internal :: "string \<Rightarrow> bool" where
  "is_internal name = (7 \<le> length name \<and> map ascii_lower (take 6 name) = ''sqlite'')"

text \<open>
  \<open>SELECT name FROM sqlite_master WHERE type='table' AND name NOT LIKE 'sqlite_%' ORDER BY name\<close>.
\<close>

definition user_table_names :: "database \<Rightarrow> string list" where
  "user_table_names db = sort (filter (\<lambda>n. \<not> is_internal n) (map tbl_name (tables db)))"

text \<open>\<open>SELECT name FROM sqlite_master WHERE type='table' AND name=?\<close> has a row.\<close>

definition table_exists :: "database \<Rightarrow> string \<Rightarrow> bool" where
  "table_exists db name = (name \<in> set (map tbl_name (tables db)))"

section \<open>SQLiteExplorer.get\_tables\<close>

record table_entry =
  te_name :: string
  te_row_count :: int
  te_column_count :: int

definition get_tables :: "database \<Rightarrow> table_entry list" where
  "get_tables db =
     map (\<lambda>name.
            \<lparr>te_name = name,
             te_row_count = (case count_rows db name of None \<Rightarrow> - 1 | Some n \<Rightarrow> n),
             te_column_count = int (length (table_info db name))\<rparr>)
         (user_table_names db)"

section \<open>SQLiteExplorer.get\_schema\<close>




text \<open>
  The message of the not-found error, built the same way by get\_schema, browse,
  export\_table and get\_stats.
\<close>

definition not_found :: "database \<Rightarrow> string \<Rightarrow> error" where
  "not_found db table =
     (let available = map te_name (get_tables db)
      in ValueError (''Table '' @ [CHR 0x27] @ table @ [CHR 0x27] @ '' not found. Available tables: ''
                       @ (if available \<noteq> [] then join '', '' available else ''(none)'')))"




section \<open>SQLiteExplorer.diff\<close>











text \<open>
  Example databases: \<open>LIKE\<close> is containment of the term in a text value without regard
  to the case of ASCII letters, and the aggregates answer NULL.
\<close>

definition mk_column :: "int \<Rightarrow> string \<Rightarrow> string \<Rightarrow> column" where
  "mk_column i n ty = \<lparr>cid = i, col_name = n, decl_type = ty, notnull = 0, dflt_value = Null, pk = 0\<rparr>"

definition mk_table :: "string \<Rightarrow> column list \<Rightarrow> val list list \<Rightarrow> table" where
  "mk_table n cols rows =
     \<lparr>tbl_name = n, tbl_columns = cols, tbl_indexes = [], tbl_fks = [], tbl_sql = Null, tbl_rows = rows\<rparr>"

definition mk_db :: "string \<Rightarrow> table list \<Rightarrow> (query \<Rightarrow> bool) \<Rightarrow> database" where
  "mk_db path ts fs =
     \<lparr>db_path = path, file_size = 8192, page_size = 4096, page_count = 2, freelist_count = 0,
      tables = ts, faults = fs,
      like_match = (\<lambda>term v. case v of Text s \<Rightarrow> contains (map ascii_lower term) (map ascii_lower s) | _ \<Rightarrow> False),
      count_distinct = (\<lambda>vs. int (length (remdups vs))),
      aggregate_of = (\<lambda>a vs. Null),
      select_where = (\<lambda>t w ob. None),
      run_sql = (\<lambda>q. None)\<rparr>"

definition users :: table where
  "users = mk_table ''users''
     [mk_column 0 ''id'' ''INTEGER'', mk_column 1 ''name'' ''TEXT'', mk_column 2 ''email'' ''TEXT'']
     [[Integer 1, Text ''Alice'', Text ''alice@example.com''],
      [Integer 2, Text ''Bob'', Null],
      [Integer 3, Text ''Eve'', Text ''eve@example.com'']]"


definition memo :: table where
  "memo = mk_table ''memo'' [mk_column 0 ''body'' '''', mk_column 1 ''tag'' ''TEXT''] []"





section \<open>SQLiteExplorer.search\<close>







text \<open>
  \<open>xs.index(x)\<close>, the first position of \<open>x\<close>; it is only asked for names taken from
  \<open>xs\<close> itself.
\<close>

fun index_of :: "'a list \<Rightarrow> 'a \<Rightarrow> nat" where
  "index_of [] x = 0"
| "index_of (y # ys) x = (if y = x then 0 else Suc (index_of ys x))"













section \<open>Float arithmetic and formatting used by the statistics and the size report\<close>

text \<open>
  \<open>nearest_double n d\<close> is the double nearest to the fraction \<open>n / d\<close> (\<open>d\<close> positive), ties
  to even: the result of the true division \<open>n / d\<close> of two integers and of \<open>float(n)\<close>.
  The significand has 53 bits; the range of the exponent is not limited, so overflow and
  subnormal results are outside of the model.
\<close>

definition le_pow2 :: "int \<Rightarrow> int \<Rightarrow> int \<Rightarrow> bool" where
  "le_pow2 k n d = (if 0 \<le> k then 2 ^ nat k * d \<le> n else d \<le> n * 2 ^ nat (- k))"

definition floor_log2 :: "int \<Rightarrow> int \<Rightarrow> int" where
  "floor_log2 n d =
     (let hi = 4 * int (length (digits n)); lo = - (4 * int (length (digits d)))
      in case find (\<lambda>k. le_pow2 k n d) (rev [lo..hi]) of Some k \<Rightarrow> k | None \<Rightarrow> lo)"

definition nearest_double :: "int \<Rightarrow> int \<Rightarrow> pyfloat" where
  "nearest_double n d =
     (if n = 0 then Finite 0 0
      else
        (let e = floor_log2 \<bar>n\<bar> d - 52;
             m = (if 0 \<le> e then div_half_even \<bar>n\<bar> (d * 2 ^ nat e)
                  else div_half_even (\<bar>n\<bar> * 2 ^ nat (- e)) d)
         in Finite (if n < 0 then - m else m) e))"

text \<open>\<open>x * k\<close> for a float \<open>x\<close> and a positive integer \<open>k\<close> that is exact as a float.\<close>

definition float_mul_int :: "pyfloat \<Rightarrow> int \<Rightarrow> pyfloat" where
  "float_mul_int x k =
     (case x of
        Finite m e \<Rightarrow>
          (if 0 \<le> e then nearest_double (m * k * 2 ^ nat e) 1
           else nearest_double (m * k) (2 ^ nat (- e)))
      | other \<Rightarrow> other)"

text \<open>\<open>"%.1f" % x\<close>: the exact value rounded to one decimal, ties to even.\<close>

definition fmt_f1 :: "pyfloat \<Rightarrow> string" where
  "fmt_f1 x =
     (case x of
        Finite m e \<Rightarrow>
          (case frac_of m e of
             (n, d) \<Rightarrow>
               (let t = div_half_even (n * 10) d
                in (if m < 0 then ''-'' else '''') @ digits (t div 10) @ ''.'' @ digits (t mod 10)))
      | NegZero \<Rightarrow> ''-0.0''
      | PosInf \<Rightarrow> ''inf''
      | NegInf \<Rightarrow> ''-inf''
      | NaN \<Rightarrow> ''nan'')"

text \<open>\<open>"%.1f%%" % (a / b * 100)\<close> for integers \<open>a\<close> and \<open>b\<close>, \<open>b\<close> positive.\<close>

definition percent :: "int \<Rightarrow> int \<Rightarrow> string" where
  "percent a b = fmt_f1 (float_mul_int (nearest_double a b) 100) @ ''%''"

text \<open>
  \<open>round(x, 4)\<close> of a float: the exact value rounded to four decimals, ties to even, and
  from there the nearest double.
\<close>

definition round4 :: "pyfloat \<Rightarrow> pyfloat" where
  "round4 x =
     (case x of
        Finite m e \<Rightarrow>
          (case frac_of m e of
             (n, d) \<Rightarrow>
               (let t = div_half_even (n * 10000) d
                in if t = 0 \<and> m < 0 then NegZero
                   else nearest_double (if m < 0 then - t else t) 10000))
      | other \<Rightarrow> other)"



section \<open>The helper \_format\_size\<close>





section \<open>SQLiteExplorer.get\_stats\<close>

record column_stat =
  cs_column :: string
  cs_type :: string
  cs_total_rows :: int
  non_null :: int
  null_count :: int
  null_pct :: string
  distinct_count :: int
  cs_min :: val
  cs_max :: val
  cs_avg :: val
  cs_sum :: val

text \<open>
  The values of the column named \<open>c\<close> in the rows of a table, and those of them that are
  not NULL: the input of the aggregates of the engine.
\<close>

definition col_values :: "table \<Rightarrow> string \<Rightarrow> val list" where
  "col_values t c = map (\<lambda>row. row ! index_of (map col_name (tbl_columns t)) c) (select_all t)"

definition non_nulls :: "val list \<Rightarrow> val list" where
  "non_nulls vs = filter (\<lambda>v. v \<noteq> Null) vs"

text \<open>
  \<open>SELECT COUNT("c"), COUNT(DISTINCT "c") FROM "table"\<close>: both count values that are not
  NULL. \<open>None\<close> is \<open>OperationalError\<close>.
\<close>

definition basic_stats :: "database \<Rightarrow> string \<Rightarrow> string \<Rightarrow> (int \<times> int) option" where
  "basic_stats db table c =
     (case find_table db table of
        None \<Rightarrow> None
      | Some t \<Rightarrow>
          if faults db (QBasicStats table c) then None
          else (let vs = non_nulls (col_values t c)
                in Some (int (length vs), if vs = [] then 0 else count_distinct db vs)))"

text \<open>
  \<open>SELECT MIN("c"), MAX("c"), AVG("c"), SUM("c") FROM "table"\<close>: each aggregate is NULL when
  the column has no value that is not NULL.
\<close>

definition sql_aggregate :: "database \<Rightarrow> aggregate \<Rightarrow> val list \<Rightarrow> val" where
  "sql_aggregate db a vs = (if non_nulls vs = [] then Null else aggregate_of db a (non_nulls vs))"

definition num_stats :: "database \<Rightarrow> string \<Rightarrow> string \<Rightarrow> (val \<times> val \<times> val \<times> val) option" where
  "num_stats db table c =
     (case find_table db table of
        None \<Rightarrow> None
      | Some t \<Rightarrow>
          if faults db (QNumStats table c) then None
          else (let vs = col_values t c
                in Some (sql_aggregate db AggMin vs, sql_aggregate db AggMax vs,
                         sql_aggregate db AggAvg vs, sql_aggregate db AggSum vs)))"

text \<open>
  \<open>round(x, 4) if x is not None else None\<close>; \<open>None\<close> in the model is the \<open>TypeError\<close> that
  \<open>round\<close> raises for a string or a bytes object.
\<close>

definition round_avg :: "val \<Rightarrow> val option" where
  "round_avg v =
     (case v of
        Null \<Rightarrow> Some Null
      | Integer i \<Rightarrow> Some (Integer i)
      | Float x \<Rightarrow> Some (Float (round4 x))
      | Text s \<Rightarrow> None
      | Blob b \<Rightarrow> None)"

text \<open>The body of the loop over the columns.\<close>

definition column_stat_of :: "database \<Rightarrow> string \<Rightarrow> int \<Rightarrow> column \<Rightarrow> error + column_stat" where
  "column_stat_of db table total_rows col =
     (case basic_stats db table (col_name col) of
        None \<Rightarrow> Inl OperationalError
      | Some (nn, dc) \<Rightarrow>
          (let stat = \<lparr>cs_column = col_name col,
                       cs_type = (if decl_type col \<noteq> [] then decl_type col else ''ANY''),
                       cs_total_rows = total_rows,
                       non_null = nn,
                       null_count = total_rows - nn,
                       null_pct = (if total_rows > 0 then percent (total_rows - nn) total_rows
                                   else ''N/A''),
                       distinct_count = dc,
                       cs_min = Null, cs_max = Null, cs_avg = Null, cs_sum = Null\<rparr>
           in case num_stats db table (col_name col) of
                None \<Rightarrow> Inr stat
              | Some (mn, mx, av, sm) \<Rightarrow>
                  (case round_avg av of
                     None \<Rightarrow> Inr stat
                   | Some av' \<Rightarrow>
                       Inr (stat\<lparr>cs_min := mn, cs_max := mx, cs_avg := av', cs_sum := sm\<rparr>))))"

fun column_stats :: "database \<Rightarrow> string \<Rightarrow> int \<Rightarrow> column list \<Rightarrow> error + column_stat list" where
  "column_stats db table total_rows [] = Inr []"
| "column_stats db table total_rows (col # cols) =
     (case column_stat_of db table total_rows col of
        Inl e \<Rightarrow> Inl e
      | Inr s \<Rightarrow>
          (case column_stats db table total_rows cols of
             Inl e \<Rightarrow> Inl e
           | Inr ss \<Rightarrow> Inr (s # ss)))"

definition get_stats :: "database \<Rightarrow> string \<Rightarrow> error + column_stat list" where
  "get_stats db table =
     (if \<not> table_exists db table then Inl (not_found db table)
      else
        (case count_rows db table of
           None \<Rightarrow> Inl OperationalError
         | Some total_rows \<Rightarrow> column_stats db table total_rows (table_info db table)))"

section \<open>SQLiteExplorer.get\_size\<close>







text \<open>More example data: a table whose second column holds only NULL, and a failing engine.\<close>

definition audit :: table where
  "audit = mk_table ''audit''
     [mk_column 0 ''id'' ''INTEGER'', mk_column 1 ''reviewer'' ''TEXT'']
     [[Integer 10, Null], [Integer 11, Null]]"

definition db_c :: database where
  "db_c = mk_db ''c.db'' [users, memo, audit] (\<lambda>q. q = QSample ''audit'')"

section \<open>SQLiteExplorer.browse and SQLiteExplorer.export\_table\<close>














section \<open>Properties of the float formatting\<close>














section \<open>Properties of format\_table\<close>

lemma length_widen: "length (widen ws i vs) = length ws"
  by (induction vs arbitrary: ws i) auto

lemma widen_nth:
  "j < length ws \<Longrightarrow>
   widen ws i vs ! j =
     (if i \<le> j \<and> j < i + length vs then max (ws ! j) (int (length (vs ! (j - i)))) else ws ! j)"
proof (induction vs arbitrary: ws i)
  case Nil
  then show ?case by simp
next
  case (Cons v vs)
  let ?ws = "if i < length ws then ws[i := max (ws ! i) (int (length v))] else ws"
  have len: "j < length ?ws" using Cons.prems by simp
  show ?case
  proof (cases "j = i")
    case True
    with Cons.prems Cons.IH [OF len, of "Suc i"] show ?thesis by simp
  next
    case False
    with Cons.prems Cons.IH [OF len, of "Suc i"] show ?thesis
      by (auto simp: nth_Cons')
  qed
qed

lemma finite_col_cells: "finite (col_cells rows j)"
  by (simp add: col_cells_def)

lemma col_cells_Nil: "col_cells [] j = {}"
  by (simp add: col_cells_def)

lemma col_cells_Cons:
  "col_cells (r # rows) j =
     (if j < length r then insert (int (length (r ! j))) (col_cells rows j) else col_cells rows j)"
  by (simp add: col_cells_def)

lemma col_cells_member:
  "r \<in> set rows \<Longrightarrow> j < length r \<Longrightarrow> int (length (r ! j)) \<in> col_cells rows j"
  by (auto simp: col_cells_def)

lemma length_widen_rows: "length (widen_rows ws rows) = length ws"
  by (induction rows arbitrary: ws) (auto simp: length_widen)

lemma widen_rows_nth:
  "j < length ws \<Longrightarrow> widen_rows ws rows ! j = Max (insert (ws ! j) (col_cells rows j))"
proof (induction rows arbitrary: ws)
  case Nil
  then show ?case by (simp add: col_cells_Nil)
next
  case (Cons r rows)
  have len: "j < length (widen ws 0 r)" using Cons.prems by (simp add: length_widen)
  have fin: "finite (col_cells rows j)" by (rule finite_col_cells)
  show ?case
  proof (cases "j < length r")
    case True
    have "widen_rows ws (r # rows) ! j
          = Max (insert (max (ws ! j) (int (length (r ! j)))) (col_cells rows j))"
      using Cons.IH [OF len] Cons.prems True by (simp add: widen_nth)
    also have "\<dots> = Max (insert (ws ! j) (insert (int (length (r ! j))) (col_cells rows j)))"
      using fin by (cases "col_cells rows j = {}") (simp_all add: max.assoc)
    finally show ?thesis using True by (simp add: col_cells_Cons)
  next
    case False
    then show ?thesis using Cons.IH [OF len] Cons.prems by (simp add: widen_nth col_cells_Cons)
  qed
qed

lemma length_col_widths: "length (col_widths hs rows mw) = length hs"
  by (simp add: col_widths_def length_widen_rows)

lemma col_widths_nth:
  "j < length hs \<Longrightarrow>
   col_widths hs rows mw ! j = min (Max (insert (int (length (hs ! j))) (col_cells rows j))) mw"
  by (simp add: col_widths_def length_widen_rows widen_rows_nth)

lemma truncate_long:
  "3 \<le> w \<Longrightarrow> w < int (length s) \<Longrightarrow>
   truncate_str s w = take (nat (w - 3)) s @ ''...'' \<and> int (length (truncate_str s w)) = w"
  by (auto simp: truncate_str_def slice_to_def)

lemma truncate_short: "int (length s) \<le> w \<Longrightarrow> truncate_str s w = s"
  by (simp add: truncate_str_def)

lemma col_width_long_cell:
  assumes "j < length hs" "r \<in> set rows" "j < length r" "mw < int (length (r ! j))"
  shows "col_widths hs rows mw ! j = mw"
proof -
  have "int (length (r ! j)) \<le> Max (insert (int (length (hs ! j))) (col_cells rows j))"
    using assms by (intro Max_ge) (auto simp: finite_col_cells col_cells_member)
  then show ?thesis using assms by (simp add: col_widths_nth)
qed

lemma padded_cell_long:
  assumes "3 \<le> w" "j < length r" "w < int (length (r ! j))"
  shows "padded_cell B r j w = take (nat (w - 3)) (r ! j) @ ''...''"
proof -
  have "length (take (nat (w - 3)) (r ! j) @ ''...'') = nat w"
    using assms by simp
  then show ?thesis
    using assms truncate_long [of w "r ! j"]
    by (simp add: padded_cell_def Let_def ljust_def rjust_def del: length_append)
qed

text \<open>
  C7 (as amended). The width of column \<open>j\<close> is the maximum of the header length and the
  lengths of all stringified cells of that column, capped at \<open>max_width\<close>. When
  \<open>max_width\<close> is at least 3, a cell longer than the cap is rendered as its first
  \<open>max_width - 3\<close> characters followed by \<open>...\<close>, which is exactly \<open>max_width\<close>
  characters, the width of its column.
\<close>

theorem format_table_layout:
  assumes "j < length headers"
  shows "col_widths headers rows max_width ! j
           = min (Max (insert (int (length (headers ! j))) (col_cells rows j))) max_width \<and>
         (3 \<le> max_width \<and> r \<in> set rows \<and> j < length r \<and> max_width < int (length (r ! j)) \<longrightarrow>
            col_widths headers rows max_width ! j = max_width \<and>
            padded_cell B r j (col_widths headers rows max_width ! j)
              = take (nat (max_width - 3)) (r ! j) @ ''...'' \<and>
            int (length (padded_cell B r j (col_widths headers rows max_width ! j))) = max_width)"
proof (intro conjI impI)
  show "col_widths headers rows max_width ! j
          = min (Max (insert (int (length (headers ! j))) (col_cells rows j))) max_width"
    using assms by (rule col_widths_nth)
next
  assume h: "3 \<le> max_width \<and> r \<in> set rows \<and> j < length r \<and> max_width < int (length (r ! j))"
  then show w: "col_widths headers rows max_width ! j = max_width"
    using assms col_width_long_cell [of j headers r rows max_width] by blast
  from h show c: "padded_cell B r j (col_widths headers rows max_width ! j)
                    = take (nat (max_width - 3)) (r ! j) @ ''...''"
    using padded_cell_long [of max_width j r B] by (simp add: w)
  from h show "int (length (padded_cell B r j (col_widths headers rows max_width ! j))) = max_width"
    unfolding c by auto
qed

text \<open>
  The scenario of the claim: a 100-character value under a maximum width of 20 is rendered
  as a cell of exactly 20 characters ending in \<open>...\<close>.
\<close>

theorem format_table_layout_witness:
  "0 < length [''Value''] \<and> (3::int) \<le> 20 \<and> [long_value] \<in> set [[long_value]] \<and>
   0 < length [long_value] \<and> 20 < int (length ([long_value] ! 0)) \<and>
   col_widths [''Value''] [[long_value]] 20 ! 0 = 20 \<and>
   padded_cell B0 [long_value] 0 (col_widths [''Value''] [[long_value]] 20 ! 0)
     = ''AAAAAAAAAAAAAAAAA...'' \<and>
   int (length (padded_cell B0 [long_value] 0 (col_widths [''Value''] [[long_value]] 20 ! 0))) = 20"
proof -
  have h1: "0 < length [''Value'']" by simp
  have h2: "(3::int) \<le> 20 \<and> [long_value] \<in> set [[long_value]] \<and> 0 < length [long_value] \<and>
            20 < int (length ([long_value] ! 0))"
    by (simp add: long_value_def)
  have t: "take (nat (20 - 3)) ([long_value] ! 0) @ ''...'' = ''AAAAAAAAAAAAAAAAA...''"
    by code_simp
  from format_table_layout [OF h1, of "[[long_value]]" 20 "[long_value]" B0] h2
  have r: "col_widths [''Value''] [[long_value]] 20 ! 0 = 20 \<and>
        padded_cell B0 [long_value] 0 (col_widths [''Value''] [[long_value]] 20 ! 0)
          = take (nat (20 - 3)) ([long_value] ! 0) @ ''...'' \<and>
        int (length (padded_cell B0 [long_value] 0 (col_widths [''Value''] [[long_value]] 20 ! 0))) = 20"
    by blast
  note r' = r [unfolded t]
  from h1 h2 r' show ?thesis by blast
qed

text \<open>
  C7 as stated fails for a maximum width below 3: the slice bound \<open>width - 3\<close> is negative
  and counts from the end of the value, so that under a maximum width of 2 the six-character
  value \<open>abcdef\<close> is rendered with eight characters, in a column of width 2.
\<close>

theorem truncate_small_width_counterexample:
  "col_widths [''V''] [[''abcdef'']] 2 ! 0 = 2 \<and>
   padded_cell B0 [''abcdef''] 0 (col_widths [''V''] [[''abcdef'']] 2 ! 0) = ''abcde...'' \<and>
   padded_cell B0 [''abcdef''] 0 (col_widths [''V''] [[''abcdef'']] 2 ! 0)
     \<noteq> take (nat (2 - 3)) ''abcdef'' @ ''...'' \<and>
   \<not> int (length (padded_cell B0 [''abcdef''] 0 (col_widths [''V''] [[''abcdef'']] 2 ! 0))) \<le> 2 \<and>
   format_table B0 [''V''] [[Text ''abcdef'']] 2 None
     = ''+----+\<newline>| V  |\<newline>+----+\<newline>| abcde... |\<newline>+----+\<newline>(1 row)''"
  by code_simp




section \<open>Properties of format\_markdown\<close>

lemma stringify_md_frame:
  "length st \<le> length (fst (stringify_md B st rows)) \<and>
   take (length st) (fst (stringify_md B st rows)) = st \<and>
   (\<forall>b \<in> set (snd (stringify_md B st rows)). length st \<le> b)"
proof (induction rows arbitrary: st)
  case Nil
  then show ?case by simp
next
  case (Cons a as)
  let ?st1 = "st @ [StrList (map (md_cell B) (val_items st a))]"
  from Cons [of ?st1]
  have 1: "length ?st1 \<le> length (fst (stringify_md B ?st1 as))"
    and 2: "take (length ?st1) (fst (stringify_md B ?st1 as)) = ?st1"
    and 3: "\<forall>b \<in> set (snd (stringify_md B ?st1 as)). length ?st1 \<le> b"
    by blast+
  have "take (length st) (fst (stringify_md B ?st1 as))
        = take (length st) (take (length ?st1) (fst (stringify_md B ?st1 as)))"
    by (simp add: min_def)
  also have "\<dots> = st" by (simp only: 2) simp
  finally show ?case using 1 3 by (auto simp: Let_def)
qed

lemma pad_row_frame:
  "length (pad_row st b n) = length st \<and> (\<forall>a. a \<noteq> b \<longrightarrow> pad_row st b n ! a = st ! a)"
proof (induction st b n rule: pad_row.induct)
  case (1 st b n)
  show ?case
  proof (cases "b < length st \<and> length (str_items st b) < n")
    case True
    with 1 show ?thesis by (subst (1 2) pad_row.simps) simp
  next
    case False
    then show ?thesis by (subst (1 2) pad_row.simps) auto
  qed
qed

lemma pad_row_take: "k \<le> b \<Longrightarrow> take k (pad_row st b n) = take k st"
  by (rule nth_equalityI) (simp_all add: pad_row_frame)

lemma md_lines_frame:
  "\<forall>b \<in> set bs. k \<le> b \<Longrightarrow> take k (fst (md_lines st bs n)) = take k st"
  by (induction bs arbitrary: st) (simp_all add: Let_def pad_row_take)

text \<open>
  C10 (as amended). format\_markdown pads the lists of its own stringified copy
  \<open>str_rows\<close>, which it allocates afresh; every list object that existed before the call,
  so every row the caller supplied, is the same after the call.
\<close>

theorem format_markdown_keeps_rows:
  "take (length st) (fst (format_markdown B st headers rows)) = st"
proof (cases "headers = []")
  case True
  then show ?thesis by (simp add: format_markdown_def)
next
  case False
  have "take (length st)
          (fst (md_lines (fst (stringify_md B st rows)) (snd (stringify_md B st rows)) (length headers)))
        = take (length st) (fst (stringify_md B st rows))"
    using stringify_md_frame [of st B rows] by (intro md_lines_frame) blast
  with False show ?thesis
    using stringify_md_frame [of st B rows] by (simp add: format_markdown_def Let_def)
qed

text \<open>
  C10 as stated fails: with headers \<open>a, b\<close> and the one-element row \<open>[1]\<close> at address 0,
  the row at address 0 still has one element after the call, fewer than there are
  headers, while the rendered line carries the empty second cell.
\<close>

theorem format_markdown_mutation_counterexample:
  "\<not> length [''a'', ''b'']
       \<le> length (val_items (fst (format_markdown B0 [ValList [Integer 1]] [''a'', ''b''] [0])) 0) \<and>
   snd (format_markdown B0 [ValList [Integer 1]] [''a'', ''b''] [0])
     = ''| a | b |\<newline>| --- | --- |\<newline>| 1 |  |''"
  by code_simp

section \<open>Properties of get\_schema and diff\<close>



















section \<open>Properties of search\<close>

















section \<open>Properties of get\_stats\<close>

lemma find_rev_upto:
  "lo \<le> k \<Longrightarrow> k \<le> hi \<Longrightarrow> P k \<Longrightarrow> (\<forall>j. k < j \<and> j \<le> hi \<longrightarrow> \<not> P j) \<Longrightarrow>
   find P (rev [lo..hi]) = Some k"
proof (induction "nat (hi - k)" arbitrary: hi)
  case 0
  then have "hi = k" by simp
  with 0 show ?case by (simp add: upto_rec2)
next
  case (Suc n)
  then have "k < hi" by simp
  then have "lo \<le> hi" "\<not> P hi" using Suc.prems by auto
  moreover have "find P (rev [lo..hi - 1]) = Some k"
    using Suc.hyps(2) Suc.prems \<open>k < hi\<close> by (intro Suc.hyps(1)) auto
  ultimately show ?case by (simp add: upto_rec2)
qed

lemma floor_log2_same:
  assumes "0 < t"
  shows "floor_log2 t t = 0"
proof -
  have "find (\<lambda>k. le_pow2 k t t) (rev [- (4 * int (length (digits t)))..4 * int (length (digits t))])
        = Some 0"
  proof (rule find_rev_upto)
    show "le_pow2 0 t t" by (simp add: le_pow2_def)
    show "\<forall>j. 0 < j \<and> j \<le> 4 * int (length (digits t)) \<longrightarrow> \<not> le_pow2 j t t"
    proof (intro allI impI)
      fix j :: int
      assume j: "0 < j \<and> j \<le> 4 * int (length (digits t))"
      then have "(2::int) \<le> 2 ^ nat j" using self_le_power [of "2::int" "nat j"] by simp
      then have "2 * t \<le> 2 ^ nat j * t" using assms by simp
      with assms j show "\<not> le_pow2 j t t" by (simp add: le_pow2_def)
    qed
  qed simp_all
  then show ?thesis by (simp add: floor_log2_def Let_def)
qed

lemma nearest_double_same:
  assumes "0 < t"
  shows "nearest_double t t = Finite (2 ^ 52) (- 52)"
proof -
  have "div_half_even (t * 2 ^ 52) t = 2 ^ 52"
    using assms by (simp add: div_half_even_def Let_def)
  then show ?thesis
    using assms by (simp add: nearest_double_def floor_log2_same Let_def)
qed

lemma percent_hundred: "fmt_f1 (float_mul_int (Finite (2 ^ 52) (- 52)) 100) @ ''%'' = ''100.0%''"
  by code_simp

lemma percent_same: "0 < t \<Longrightarrow> percent t t = ''100.0%''"
  by (simp only: percent_def nearest_double_same percent_hundred)

lemma column_stat_all_null:
  assumes "column_stat_of db table n col = Inr s"
    and "find_table db table = Some t"
    and "\<forall>v \<in> set (col_values t (col_name col)). v = Null"
  shows "cs_column s = col_name col \<and> cs_total_rows s = n \<and> non_null s = 0 \<and>
         null_count s = n \<and> distinct_count s = 0 \<and>
         cs_min s = Null \<and> cs_max s = Null \<and> cs_avg s = Null \<and> cs_sum s = Null \<and>
         null_pct s = (if 0 < n then ''100.0%'' else ''N/A'')"
proof -
  have nn: "non_nulls (col_values t (col_name col)) = []"
    using assms(3) by (auto simp: non_nulls_def filter_empty_conv)
  have agg: "sql_aggregate db a (col_values t (col_name col)) = Null" for a
    by (simp add: sql_aggregate_def nn)
  from assms(1) show ?thesis
    by (auto simp: column_stat_of_def basic_stats_def num_stats_def assms(2) nn agg Let_def
          round_avg_def percent_same split: if_splits)
qed

lemma column_stats_nth:
  "column_stats db table n cols = Inr stats \<Longrightarrow> i < length cols \<Longrightarrow>
   i < length stats \<and> column_stat_of db table n (cols ! i) = Inr (stats ! i)"
proof (induction cols arbitrary: stats i)
  case Nil
  then show ?case by simp
next
  case (Cons c cs)
  from Cons.prems(1) obtain s ss where s: "column_stat_of db table n c = Inr s"
      "column_stats db table n cs = Inr ss" "stats = s # ss"
    by (auto split: sum.splits)
  show ?case
  proof (cases i)
    case 0
    with s show ?thesis by simp
  next
    case (Suc j)
    with Cons.prems(2) Cons.IH [OF s(2), of j] s show ?thesis by simp
  qed
qed

text \<open>
  C5. When get\_stats returns for a table, the entry of a column whose values are all NULL
  has \<open>non_null\<close> 0, \<open>distinct\<close> 0 and \<open>min\<close>, \<open>max\<close>, \<open>avg\<close>, \<open>sum\<close> all \<open>None\<close>;
  its \<open>null_pct\<close> is \<open>100.0%\<close> when the table has rows and \<open>N/A\<close> when it has none.
\<close>

theorem stats_all_null:
  assumes "get_stats db table = Inr stats"
    and "find_table db table = Some t"
    and "i < length (tbl_columns t)"
    and "\<forall>v \<in> set (col_values t (col_name (tbl_columns t ! i))). v = Null"
  shows "i < length stats \<and> cs_column (stats ! i) = col_name (tbl_columns t ! i) \<and>
         cs_total_rows (stats ! i) = int (length (tbl_rows t)) \<and>
         non_null (stats ! i) = 0 \<and> distinct_count (stats ! i) = 0 \<and>
         cs_min (stats ! i) = Null \<and> cs_max (stats ! i) = Null \<and>
         cs_avg (stats ! i) = Null \<and> cs_sum (stats ! i) = Null \<and>
         null_pct (stats ! i) = (if 0 < length (tbl_rows t) then ''100.0%'' else ''N/A'')"
proof -
  from assms(1,2) have cs: "column_stats db table (int (length (tbl_rows t))) (tbl_columns t) = Inr stats"
    by (auto simp: get_stats_def count_rows_def table_info_def split: if_splits)
  from column_stats_nth [OF cs assms(3)]
  have i: "i < length stats"
    and s: "column_stat_of db table (int (length (tbl_rows t))) (tbl_columns t ! i) = Inr (stats ! i)"
    by blast+
  from column_stat_all_null [OF s assms(2) assms(4)] i show ?thesis by simp
qed

text \<open>
  The table \<open>audit\<close> of the example has two rows and NULL in both cells of its second
  column.
\<close>

theorem stats_all_null_witness:
  "\<exists>stats. get_stats db_c ''audit'' = Inr stats \<and> find_table db_c ''audit'' = Some audit \<and>
     1 < length (tbl_columns audit) \<and> col_values audit ''reviewer'' = [Null, Null] \<and>
     cs_column (stats ! 1) = ''reviewer'' \<and> cs_total_rows (stats ! 1) = 2 \<and>
     non_null (stats ! 1) = 0 \<and> distinct_count (stats ! 1) = 0 \<and>
     cs_min (stats ! 1) = Null \<and> cs_max (stats ! 1) = Null \<and>
     cs_avg (stats ! 1) = Null \<and> cs_sum (stats ! 1) = Null \<and>
     null_pct (stats ! 1) = ''100.0%''"
proof -
  have "case get_stats db_c ''audit'' of Inl e \<Rightarrow> False | Inr stats \<Rightarrow> True" by code_simp
  then obtain stats where st: "get_stats db_c ''audit'' = Inr stats"
    by (cases "get_stats db_c ''audit''") auto
  have ft: "find_table db_c ''audit'' = Some audit" by code_simp
  have ln: "1 < length (tbl_columns audit)" by code_simp
  have cn: "col_name (tbl_columns audit ! 1) = ''reviewer''" by code_simp
  have cv: "col_values audit ''reviewer'' = [Null, Null]" by code_simp
  have rows: "length (tbl_rows audit) = 2" by code_simp
  have nl: "\<forall>v \<in> set (col_values audit (col_name (tbl_columns audit ! 1))). v = Null"
    unfolding cn cv by simp
  note r = stats_all_null [OF st ft ln nl, unfolded cn rows]
  from r st ft ln cv show ?thesis by simp
qed

section \<open>Properties of the existence checks\<close>








section \<open>Properties of get\_size\<close>

lemma select_all_Nil: "select_all t = [] \<longleftrightarrow> tbl_rows t = []"
  by (simp add: select_all_def)

lemma select_all_hd:
  "tbl_rows t \<noteq> [] \<Longrightarrow> \<exists>rest. select_all t = engine_row t (hd (tbl_rows t)) # rest"
  by (cases "tbl_rows t") (simp_all add: select_all_def)





end
